theory Spec2Isabelle
  imports Main
begin

section \<open>Python values\<close>

text \<open>
  A Python \<open>str\<close> is a sequence of code points, and slicing counts code points, so a
  string is a list of natural numbers. \<open>py\<close> turns an ASCII literal of the source into
  such a string.
\<close>

type_synonym pystr = "nat list"

definition py :: "string \<Rightarrow> pystr" where
  "py s = map of_char s"

text \<open>\<open>sep.join(xs)\<close>\<close>

fun join :: "pystr \<Rightarrow> pystr list \<Rightarrow> pystr" where
  "join sep [] = []"
| "join sep [x] = x"
| "join sep (x # y # ys) = x @ sep @ join sep (y # ys)"

text \<open>\<open>s.startswith(p)\<close>\<close>

definition startswith :: "pystr \<Rightarrow> pystr \<Rightarrow> bool" where
  "startswith s p = (take (length p) s = p)"

text \<open>
  The values that the entity dictionaries hold and that \<open>json.dump\<close> and \<open>json.loads\<close>
  carry from the extractor to the retrieval script. A \<open>dict\<close> keeps insertion order,
  so it is an association list with distinct keys.
\<close>

datatype json =
  JNull
| JBool bool
| JInt int
| JStr pystr
| JList "json list"
| JDict "(pystr \<times> json) list"

datatype error =
  KeyError pystr
| TypeError
| AttributeError
| IndexError
| ValueError
| SyntaxError
| OSError

text \<open>\<open>d[k] = v\<close> on a dict: an existing key keeps its place, a new key goes last.\<close>

fun dict_set :: "(pystr \<times> 'v) list \<Rightarrow> pystr \<Rightarrow> 'v \<Rightarrow> (pystr \<times> 'v) list" where
  "dict_set [] k v = [(k, v)]"
| "dict_set ((k', v') # d) k v =
     (if k' = k then (k, v) # d else (k', v') # dict_set d k v)"

text \<open>\<open>x[k]\<close> with a string key: a lookup in a dict, \<open>KeyError\<close> when the key is
  missing, \<open>TypeError\<close> on every other value.\<close>

fun getitem :: "json \<Rightarrow> pystr \<Rightarrow> error + json" where
  "getitem (JDict d) k = (case map_of d k of None \<Rightarrow> Inl (KeyError k) | Some v \<Rightarrow> Inr v)"
| "getitem _ k = Inl TypeError"

text \<open>\<open>for x in v\<close>: a list gives its items, a dict its keys, a string its characters;
  nothing else is iterable.\<close>

fun py_iter :: "json \<Rightarrow> error + json list" where
  "py_iter (JList xs) = Inr xs"
| "py_iter (JDict d) = Inr (map (\<lambda>kv. JStr (fst kv)) d)"
| "py_iter (JStr s) = Inr (map (\<lambda>c. JStr [c]) s)"
| "py_iter _ = Inl TypeError"

text \<open>\<open>xs[i]\<close> on a list with an integer index: a negative index counts from the end,
  an index out of range raises \<open>IndexError\<close>.\<close>

definition list_index :: "'a list \<Rightarrow> int \<Rightarrow> error + 'a" where
  "list_index xs i =
     (if 0 \<le> i then
        (if nat i < length xs then Inr (xs ! nat i) else Inl IndexError)
      else if nat (- i) \<le> length xs then Inr (xs ! (length xs - nat (- i)))
      else Inl IndexError)"

section \<open>The syntax tree\<close>

text \<open>
  The nodes of Python's \<open>ast\<close> module that the two scripts look at. An expression holds
  no statement, so the remaining expression kinds are one constructor with their
  sub-expressions. The fields of a definition are \<open>name\<close>, \<open>args\<close> (or \<open>bases\<close>),
  \<open>body\<close>, \<open>decorator_list\<close>, \<open>lineno\<close> and \<open>end_lineno\<close>.
\<close>

datatype const_value = Str pystr | Num int | NoneConst | BoolConst bool

datatype expr =
  Name pystr
| Attribute expr pystr
| Call expr "expr list" "(pystr option \<times> expr) list"
| Constant const_value
| Subscript expr expr
| Await expr
| OtherExpr "expr list"

text \<open>\<open>ast.arguments\<close>: \<open>posonlyargs\<close>, \<open>args\<close>, \<open>vararg\<close>, \<open>kwonlyargs\<close>, \<open>kwarg\<close>
  (names only).\<close>

datatype arguments =
  Arguments "pystr list" "pystr list" "pystr option" "pystr list" "pystr option"

fun args_of :: "arguments \<Rightarrow> pystr list" where
  "args_of (Arguments posonly args vararg kwonly kwarg) = args"

datatype stmt =
  FunctionDef pystr arguments "stmt list" "expr list" int "int option"
| AsyncFunctionDef pystr arguments "stmt list" "expr list" int "int option"
| ClassDef pystr "expr list" "stmt list" "expr list" int "int option"
| Expr expr int
| Assign "expr list" expr int
| If expr "stmt list" "stmt list" int
| ImportFrom "pystr option" int
| OtherStmt "stmt list" int

text \<open>
  What the scripts need from their libraries and from the file system: \<open>inspect.cleandoc\<close>
  (used by \<open>ast.get_docstring\<close>), \<open>Path.is_file\<close>, \<open>Path.suffix\<close>, \<open>Path.rglob("*.py")\<close>,
  \<open>Path.read_text\<close>, \<open>ast.parse\<close>, and \<open>str(file_path.relative_to(path.parent))\<close> as a
  function of \<open>file_path\<close> and \<open>path\<close>. Reading, parsing and relativising can raise.
\<close>

record host =
  cleandoc :: "pystr \<Rightarrow> pystr"
  is_file :: "pystr \<Rightarrow> bool"
  suffix :: "pystr \<Rightarrow> pystr"
  rglob_py :: "pystr \<Rightarrow> pystr list"
  read_text :: "pystr \<Rightarrow> error + pystr"
  parse :: "pystr \<Rightarrow> error + stmt list"
  relative_to_parent :: "pystr \<Rightarrow> pystr \<Rightarrow> error + pystr"

section \<open>Extractor.py\<close>

subsection \<open>Name resolution\<close>

text \<open>The \<open>while isinstance(current, ast.Attribute)\<close> loop of \<open>get_attribute_name\<close>:
  it returns \<open>parts\<close> and \<open>current\<close> as they are when the loop ends.\<close>

fun attribute_loop :: "expr \<Rightarrow> pystr list \<Rightarrow> pystr list \<times> expr" where
  "attribute_loop (Attribute v attr) parts = attribute_loop v (parts @ [attr])"
| "attribute_loop current parts = (parts, current)"

definition get_attribute_name :: "expr \<Rightarrow> pystr" where
  "get_attribute_name node =
     (case attribute_loop node [] of
        (parts, current) \<Rightarrow>
          join (py ''.'')
            (rev (case current of Name ident \<Rightarrow> parts @ [ident] | _ \<Rightarrow> parts)))"

fun get_decorator_name :: "expr \<Rightarrow> pystr" where
  "get_decorator_name (Name ident) = ident"
| "get_decorator_name (Attribute v attr) = get_attribute_name (Attribute v attr)"
| "get_decorator_name (Call func args keywords) = get_decorator_name func"
| "get_decorator_name _ = py ''unknown_decorator''"

subsection \<open>Docstrings\<close>

text \<open>
  \<open>ast.get_docstring(node)\<close> on the body of a definition: \<open>None\<close> unless the first
  statement is an expression statement holding a string constant, whose text is then
  cleaned by \<open>inspect.cleandoc\<close>.
\<close>

fun get_docstring :: "host \<Rightarrow> stmt list \<Rightarrow> pystr option" where
  "get_docstring h (Expr (Constant (Str text)) ln # rest) = Some (cleandoc h text)"
| "get_docstring h body = None"

text \<open>\<open>ast.get_docstring(node) or ""\<close>, then \<open>docstring[:200] if docstring else ""\<close>.\<close>

definition docstring_or_empty :: "host \<Rightarrow> stmt list \<Rightarrow> pystr" where
  "docstring_or_empty h body =
     (case get_docstring h body of None \<Rightarrow> [] | Some d \<Rightarrow> if d \<noteq> [] then d else [])"

definition docstring_field :: "pystr \<Rightarrow> pystr" where
  "docstring_field docstring = (if docstring \<noteq> [] then take 200 docstring else [])"

subsection \<open>Entities\<close>

text \<open>\<open>if parent_class:\<close> is false for \<open>None\<close> and for the empty string.\<close>

fun truthy :: "pystr option \<Rightarrow> bool" where
  "truthy None = False"
| "truthy (Some s) = (s \<noteq> [])"

definition function_kind :: "pystr \<Rightarrow> pystr option \<Rightarrow> pystr" where
  "function_kind name parent_class =
     (if truthy parent_class then
        (if name = py ''__init__'' then py ''constructor''
         else if startswith name (py ''_'') then py ''private_method''
         else py ''method'')
      else py ''function'')"

fun json_opt_int :: "int option \<Rightarrow> json" where
  "json_opt_int None = JNull"
| "json_opt_int (Some i) = JInt i"

fun json_opt_str :: "pystr option \<Rightarrow> json" where
  "json_opt_str None = JNull"
| "json_opt_str (Some s) = JStr s"

text \<open>The body of \<open>extract_function\<close>, for a node of either function kind.\<close>

definition function_entity ::
  "host \<Rightarrow> bool \<Rightarrow> pystr \<Rightarrow> arguments \<Rightarrow> stmt list \<Rightarrow> expr list \<Rightarrow> int \<Rightarrow> int option \<Rightarrow>
   pystr option \<Rightarrow> json" where
  "function_entity h is_async name args body decorator_list lineno end_lineno parent_class =
     JDict
       [(py ''type'', JStr (py ''function'')),
        (py ''kind'', JStr (function_kind name parent_class)),
        (py ''name'', JStr name),
        (py ''line'', JInt lineno),
        (py ''end_line'', json_opt_int end_lineno),
        (py ''params'', JList (map JStr (args_of args))),
        (py ''decorators'', JList (map (\<lambda>d. JStr (get_decorator_name d)) decorator_list)),
        (py ''docstring'', JStr (docstring_field (docstring_or_empty h body))),
        (py ''is_async'', JBool is_async),
        (py ''parent_class'', json_opt_str parent_class)]"

text \<open>\<open>extract_function(node, source_code, parent_class)\<close>. On a node that is no
  function definition \<open>ast.get_docstring\<close> raises \<open>TypeError\<close> (a class has no \<open>args\<close>:
  \<open>AttributeError\<close>).\<close>

fun extract_function :: "host \<Rightarrow> stmt \<Rightarrow> pystr \<Rightarrow> pystr option \<Rightarrow> error + json" where
  "extract_function h (FunctionDef name args body decs ln eln) source_code parent_class =
     Inr (function_entity h False name args body decs ln eln parent_class)"
| "extract_function h (AsyncFunctionDef name args body decs ln eln) source_code parent_class =
     Inr (function_entity h True name args body decs ln eln parent_class)"
| "extract_function h (ClassDef name bases body decs ln eln) source_code parent_class =
     Inl AttributeError"
| "extract_function h node source_code parent_class = Inl TypeError"

text \<open>The loop over \<open>node.bases\<close> in \<open>extract_class\<close>.\<close>

fun collect_bases :: "expr list \<Rightarrow> pystr list \<Rightarrow> pystr list" where
  "collect_bases [] bases = bases"
| "collect_bases (Name ident # rest) bases = collect_bases rest (bases @ [ident])"
| "collect_bases (Attribute v attr # rest) bases =
     collect_bases rest (bases @ [get_attribute_name (Attribute v attr)])"
| "collect_bases (base # rest) bases = collect_bases rest bases"

text \<open>The loop over \<open>node.body\<close> in \<open>extract_class\<close>, collecting \<open>methods\<close>.\<close>

fun collect_methods ::
  "host \<Rightarrow> stmt list \<Rightarrow> pystr \<Rightarrow> pystr \<Rightarrow> json list \<Rightarrow> error + json list" where
  "collect_methods h [] source_code class_name methods = Inr methods"
| "collect_methods h (FunctionDef name args body decs ln eln # rest) source_code class_name methods =
     (case extract_function h (FunctionDef name args body decs ln eln) source_code (Some class_name) of
        Inl e \<Rightarrow> Inl e
      | Inr method \<Rightarrow> collect_methods h rest source_code class_name (methods @ [method]))"
| "collect_methods h (AsyncFunctionDef name args body decs ln eln # rest) source_code class_name methods =
     (case extract_function h (AsyncFunctionDef name args body decs ln eln) source_code (Some class_name) of
        Inl e \<Rightarrow> Inl e
      | Inr method \<Rightarrow> collect_methods h rest source_code class_name (methods @ [method]))"
| "collect_methods h (item # rest) source_code class_name methods =
     collect_methods h rest source_code class_name methods"

fun extract_class :: "host \<Rightarrow> stmt \<Rightarrow> pystr \<Rightarrow> error + json" where
  "extract_class h (ClassDef name bases body decs ln eln) source_code =
     (case collect_methods h body source_code name [] of
        Inl e \<Rightarrow> Inl e
      | Inr methods \<Rightarrow>
          Inr (JDict
            [(py ''type'', JStr (py ''class'')),
             (py ''name'', JStr name),
             (py ''line'', JInt ln),
             (py ''end_line'', json_opt_int eln),
             (py ''bases'', JList (map JStr (collect_bases bases []))),
             (py ''decorators'', JList (map (\<lambda>d. JStr (get_decorator_name d)) decs)),
             (py ''docstring'', JStr (docstring_field (docstring_or_empty h body))),
             (py ''methods'', JList methods),
             (py ''method_count'', JInt (int (length methods)))]))"
| "extract_class h (FunctionDef name args body decs ln eln) source_code = Inl AttributeError"
| "extract_class h (AsyncFunctionDef name args body decs ln eln) source_code = Inl AttributeError"
| "extract_class h node source_code = Inl TypeError"

text \<open>The loop over \<open>tree.body\<close> in \<open>extract_entities_from_file\<close>.\<close>

fun extract_top_level ::
  "host \<Rightarrow> stmt list \<Rightarrow> pystr \<Rightarrow> json list \<Rightarrow> error + json list" where
  "extract_top_level h [] source_code entities = Inr entities"
| "extract_top_level h (ClassDef name bases body decs ln eln # rest) source_code entities =
     (case extract_class h (ClassDef name bases body decs ln eln) source_code of
        Inl e \<Rightarrow> Inl e
      | Inr class_entity \<Rightarrow> extract_top_level h rest source_code (entities @ [class_entity]))"
| "extract_top_level h (FunctionDef name args body decs ln eln # rest) source_code entities =
     (case extract_function h (FunctionDef name args body decs ln eln) source_code None of
        Inl e \<Rightarrow> Inl e
      | Inr func_entity \<Rightarrow> extract_top_level h rest source_code (entities @ [func_entity]))"
| "extract_top_level h (AsyncFunctionDef name args body decs ln eln # rest) source_code entities =
     (case extract_function h (AsyncFunctionDef name args body decs ln eln) source_code None of
        Inl e \<Rightarrow> Inl e
      | Inr func_entity \<Rightarrow> extract_top_level h rest source_code (entities @ [func_entity]))"
| "extract_top_level h (node # rest) source_code entities =
     extract_top_level h rest source_code entities"

definition extract_entities_from_file :: "host \<Rightarrow> pystr \<Rightarrow> error + json list" where
  "extract_entities_from_file h file_path =
     (case read_text h file_path of
        Inl e \<Rightarrow> Inl e
      | Inr source_code \<Rightarrow>
          (case parse h source_code of
             Inl e \<Rightarrow> Inl e
           | Inr tree \<Rightarrow> extract_top_level h tree source_code []))"

text \<open>The body of the \<open>try\<close> block for one file: the catalog it leaves, or the
  exception it raises (the catalog is then as it was: the assignment is the last
  statement that can raise).\<close>

definition try_file ::
  "host \<Rightarrow> pystr \<Rightarrow> pystr \<Rightarrow> (pystr \<times> json) list \<Rightarrow> error + (pystr \<times> json) list" where
  "try_file h path file_path all_entities =
     (case extract_entities_from_file h file_path of
        Inl e \<Rightarrow> Inl e
      | Inr entities \<Rightarrow>
          if entities \<noteq> [] then
            (case relative_to_parent h file_path path of
               Inl e \<Rightarrow> Inl e
             | Inr relative_path \<Rightarrow> Inr (dict_set all_entities relative_path (JList entities)))
          else Inr all_entities)"

text \<open>The loop over \<open>python_files\<close>; \<open>except Exception\<close> only prints.\<close>

fun files_loop ::
  "host \<Rightarrow> pystr \<Rightarrow> pystr list \<Rightarrow> (pystr \<times> json) list \<Rightarrow> (pystr \<times> json) list" where
  "files_loop h path [] all_entities = all_entities"
| "files_loop h path (file_path # rest) all_entities =
     files_loop h path rest
       (case try_file h path file_path all_entities of
          Inl e \<Rightarrow> all_entities
        | Inr all_entities' \<Rightarrow> all_entities')"

definition python_files :: "host \<Rightarrow> pystr \<Rightarrow> pystr list" where
  "python_files h path =
     (if is_file h path then (if suffix h path = py ''.py'' then [path] else [])
      else rglob_py h path)"

definition extract_entities_from_directory :: "host \<Rightarrow> pystr \<Rightarrow> (pystr \<times> json) list" where
  "extract_entities_from_directory h path = files_loop h path (python_files h path) []"

section \<open>Analyzer.py: the visitor\<close>

text \<open>The analyzer object: the three entries of \<open>self.stats\<close> and \<open>self.current_function\<close>.\<close>

record analyzer =
  methods_found :: nat
  business_rules :: "json list"
  dependencies :: "pystr set"
  current_function :: "pystr option"

definition new_analyzer :: analyzer where
  "new_analyzer =
     \<lparr>methods_found = 0, business_rules = [], dependencies = {}, current_function = None\<rparr>"

text \<open>The dictionary appended for one call found in the hook.\<close>

definition business_rule :: "pystr \<Rightarrow> int \<Rightarrow> json" where
  "business_rule called_method lineno =
     JDict
       [(py ''source_method'', JStr (py ''on_submit'')),
        (py ''calls'', JStr called_method),
        (py ''line_number'', JInt lineno)]"

text \<open>\<open>analyze_on_submit(node)\<close>, as the loop over \<open>node.body\<close>. Only an \<open>Attribute\<close>
  node has a field \<open>attr\<close>.\<close>

fun analyze_on_submit :: "stmt list \<Rightarrow> analyzer \<Rightarrow> analyzer" where
  "analyze_on_submit [] a = a"
| "analyze_on_submit (Expr (Call (Attribute v attr) args keywords) ln # rest) a =
     analyze_on_submit rest
       (a\<lparr>business_rules := business_rules a @ [business_rule attr ln]\<rparr>)"
| "analyze_on_submit (item # rest) a = analyze_on_submit rest a"

text \<open>
  \<open>NodeVisitor.visit\<close> calls \<open>visit_FunctionDef\<close> and \<open>visit_ImportFrom\<close> on the nodes
  of these two classes and \<open>generic_visit\<close> on every other node, which visits the child
  nodes in field order. Statements are found in statement lists only, so the visit of a
  node's expressions changes nothing and \<open>generic_visit\<close> is the visit of the child
  statements.
\<close>

fun visit :: "stmt \<Rightarrow> analyzer \<Rightarrow> analyzer"
  and generic_visit :: "stmt list \<Rightarrow> analyzer \<Rightarrow> analyzer" where
  "visit (FunctionDef name args body decs ln eln) a =
     (let a1 = a\<lparr>methods_found := methods_found a + 1, current_function := Some name\<rparr>;
          a2 = (if name = py ''on_submit'' then analyze_on_submit body a1 else a1);
          a3 = generic_visit body a2
      in a3\<lparr>current_function := None\<rparr>)"
| "visit (AsyncFunctionDef name args body decs ln eln) a = generic_visit body a"
| "visit (ClassDef name bases body decs ln eln) a = generic_visit body a"
| "visit (Expr e ln) a = a"
| "visit (Assign targets v ln) a = a"
| "visit (If test body orelse ln) a = generic_visit orelse (generic_visit body a)"
| "visit (ImportFrom module ln) a =
     (case module of
        None \<Rightarrow> a
      | Some m \<Rightarrow> if m \<noteq> [] then a\<lparr>dependencies := insert m (dependencies a)\<rparr> else a)"
| "visit (OtherStmt children ln) a = generic_visit children a"
| "generic_visit [] a = a"
| "generic_visit (s # ss) a = generic_visit ss (visit s a)"

text \<open>\<open>analyze_file\<close> after the file is read and parsed: a new analyzer visits the
  module, that is its body.\<close>

definition analyze_tree :: "stmt list \<Rightarrow> analyzer" where
  "analyze_tree tree = generic_visit tree new_analyzer"

definition analyze_file :: "host \<Rightarrow> pystr \<Rightarrow> error + analyzer" where
  "analyze_file h filename =
     (case read_text h filename of
        Inl e \<Rightarrow> Inl e
      | Inr source \<Rightarrow>
          (case parse h source of Inl e \<Rightarrow> Inl e | Inr tree \<Rightarrow> Inr (analyze_tree tree)))"

section \<open>Analyzer.py: documents, index and retrieval\<close>

text \<open>An exception ends the computation: the rest runs only on a value.\<close>

definition and_then :: "error + 'a \<Rightarrow> ('a \<Rightarrow> error + 'b) \<Rightarrow> error + 'b" where
  "and_then r f = (case r of Inl e \<Rightarrow> Inl e | Inr x \<Rightarrow> f x)"

definition class_document :: "pystr \<Rightarrow> json \<Rightarrow> json \<Rightarrow> json" where
  "class_document file text name =
     JDict
       [(py ''text'', text),
        (py ''metadata'',
           JDict [(py ''file'', JStr file), (py ''name'', name),
                  (py ''type'', JStr (py ''class''))])]"

definition method_document :: "pystr \<Rightarrow> json \<Rightarrow> json \<Rightarrow> json \<Rightarrow> json" where
  "method_document file text class_name name =
     JDict
       [(py ''text'', text),
        (py ''metadata'',
           JDict [(py ''file'', JStr file), (py ''class'', class_name), (py ''name'', name),
                  (py ''type'', JStr (py ''method''))])]"

definition function_document :: "pystr \<Rightarrow> json \<Rightarrow> json \<Rightarrow> json" where
  "function_document file text name =
     JDict
       [(py ''text'', text),
        (py ''metadata'',
           JDict [(py ''file'', JStr file), (py ''name'', name),
                  (py ''type'', JStr (py ''function''))])]"

text \<open>The loop \<open>for m in ent["methods"]\<close>.\<close>

fun methods_loop :: "pystr \<Rightarrow> json \<Rightarrow> json list \<Rightarrow> json list \<Rightarrow> error + json list" where
  "methods_loop file ent [] documents = Inr documents"
| "methods_loop file ent (m # ms) documents =
     and_then (getitem m (py ''source_code'')) (\<lambda>text.
     and_then (getitem ent (py ''name'')) (\<lambda>class_name.
     and_then (getitem m (py ''name'')) (\<lambda>name.
       methods_loop file ent ms (documents @ [method_document file text class_name name]))))"

text \<open>The loop \<open>for ent in entities\<close>.\<close>

fun entities_loop :: "pystr \<Rightarrow> json list \<Rightarrow> json list \<Rightarrow> error + json list" where
  "entities_loop file [] documents = Inr documents"
| "entities_loop file (ent # rest) documents =
     and_then (getitem ent (py ''type'')) (\<lambda>ty.
       if ty = JStr (py ''class'') then
         and_then (getitem ent (py ''source_code'')) (\<lambda>text.
         and_then (getitem ent (py ''name'')) (\<lambda>name.
         and_then (getitem ent (py ''methods'')) (\<lambda>methods.
         and_then (py_iter methods) (\<lambda>ms.
         and_then (methods_loop file ent ms (documents @ [class_document file text name]))
           (\<lambda>documents'. entities_loop file rest documents')))))
       else
         and_then (getitem ent (py ''source_code'')) (\<lambda>text.
         and_then (getitem ent (py ''name'')) (\<lambda>name.
           entities_loop file rest (documents @ [function_document file text name]))))"

text \<open>The loop \<open>for file, entities in data.items()\<close>.\<close>

fun items_loop :: "(pystr \<times> json) list \<Rightarrow> json list \<Rightarrow> error + json list" where
  "items_loop [] documents = Inr documents"
| "items_loop ((file, entities) # rest) documents =
     and_then (py_iter entities) (\<lambda>ents.
     and_then (entities_loop file ents documents) (\<lambda>documents'.
       items_loop rest documents'))"

text \<open>\<open>build_documents\<close>, from the value that \<open>json.loads\<close> read from the entities
  file. Only a dict has \<open>items\<close>.\<close>

fun build_documents :: "json \<Rightarrow> error + json list" where
  "build_documents (JDict data) = items_loop data []"
| "build_documents _ = Inl AttributeError"

text \<open>\<open>[d["text"] for d in docs]\<close>\<close>

fun texts_of :: "json list \<Rightarrow> error + json list" where
  "texts_of [] = Inr []"
| "texts_of (d # ds) =
     and_then (getitem d (py ''text'')) (\<lambda>t.
     and_then (texts_of ds) (\<lambda>ts. Inr (t # ts)))"

text \<open>
  The two artefacts that \<open>build_index\<close> writes: the index, which holds the vectors in
  the order in which \<open>index.add\<close> received them, and the metadata file, which holds the
  documents. The embedding service is order-preserving and pure: \<open>model.encode(texts)\<close>
  followed by \<open>astype("float32")\<close> is \<open>embedding\<close> on every text, in order. The type
  of a vector and the distance are the libraries' and stay abstract. The array of an
  empty batch has a single axis, so for no text at all \<open>embeddings.shape[1]\<close> raises
  \<open>IndexError\<close> and nothing is written.
\<close>

record 'v persisted =
  index_file :: "'v list"
  meta_file :: "json list"

definition build_index :: "(json \<Rightarrow> 'v) \<Rightarrow> json \<Rightarrow> error + 'v persisted" where
  "build_index embedding data =
     and_then (build_documents data) (\<lambda>docs.
     and_then (texts_of docs) (\<lambda>texts.
       if texts = [] then Inl IndexError
       else Inr \<lparr>index_file = map embedding texts, meta_file = docs\<rparr>))"

text \<open>The loop \<open>for idx in indices[0]\<close> of \<open>retrieve\<close>.\<close>

fun results_loop :: "json list \<Rightarrow> int list \<Rightarrow> json list \<Rightarrow> error + json list" where
  "results_loop metadata [] results = Inr results"
| "results_loop metadata (idx # rest) results =
     and_then (list_index metadata idx) (\<lambda>d. results_loop metadata rest (results @ [d]))"

text \<open>\<open>retrieve(query, top_k)\<close>; \<open>search\<close> is the index's nearest-neighbour search,
  which returns positions.\<close>

definition retrieve ::
  "('v list \<Rightarrow> 'v \<Rightarrow> nat \<Rightarrow> int list) \<Rightarrow> (json \<Rightarrow> 'v) \<Rightarrow> 'v persisted \<Rightarrow> json \<Rightarrow> nat \<Rightarrow>
   error + json list" where
  "retrieve search embedding store query top_k =
     results_loop (meta_file store) (search (index_file store) (embedding query) top_k) []"

section \<open>Vocabulary of the properties\<close>

text \<open>All statement nodes of a tree (those that \<open>ast.walk\<close> yields), each before
  its descendants.\<close>

fun walk :: "stmt \<Rightarrow> stmt list" and walk_list :: "stmt list \<Rightarrow> stmt list" where
  "walk (FunctionDef name args body decs ln eln) =
     FunctionDef name args body decs ln eln # walk_list body"
| "walk (AsyncFunctionDef name args body decs ln eln) =
     AsyncFunctionDef name args body decs ln eln # walk_list body"
| "walk (ClassDef name bases body decs ln eln) =
     ClassDef name bases body decs ln eln # walk_list body"
| "walk (Expr e ln) = [Expr e ln]"
| "walk (Assign targets v ln) = [Assign targets v ln]"
| "walk (If test body orelse ln) = If test body orelse ln # walk_list body @ walk_list orelse"
| "walk (ImportFrom module ln) = [ImportFrom module ln]"
| "walk (OtherStmt children ln) = OtherStmt children ln # walk_list children"
| "walk_list [] = []"
| "walk_list (s # ss) = walk s @ walk_list ss"

fun is_sync_def :: "stmt \<Rightarrow> bool" where
  "is_sync_def (FunctionDef name args body decs ln eln) = True"
| "is_sync_def _ = False"

fun is_sync_hook :: "stmt \<Rightarrow> bool" where
  "is_sync_hook (FunctionDef name args body decs ln eln) = (name = py ''on_submit'')"
| "is_sync_hook _ = False"

fun is_function_like :: "stmt \<Rightarrow> bool" where
  "is_function_like (FunctionDef name args body decs ln eln) = True"
| "is_function_like (AsyncFunctionDef name args body decs ln eln) = True"
| "is_function_like _ = False"

fun is_class_def :: "stmt \<Rightarrow> bool" where
  "is_class_def (ClassDef name bases body decs ln eln) = True"
| "is_class_def _ = False"

fun node_name :: "stmt \<Rightarrow> pystr" where
  "node_name (FunctionDef name args body decs ln eln) = name"
| "node_name (AsyncFunctionDef name args body decs ln eln) = name"
| "node_name (ClassDef name bases body decs ln eln) = name"
| "node_name _ = []"

fun node_body :: "stmt \<Rightarrow> stmt list" where
  "node_body (FunctionDef name args body decs ln eln) = body"
| "node_body (AsyncFunctionDef name args body decs ln eln) = body"
| "node_body (ClassDef name bases body decs ln eln) = body"
| "node_body _ = []"

fun stmt_lineno :: "stmt \<Rightarrow> int" where
  "stmt_lineno (FunctionDef name args body decs ln eln) = ln"
| "stmt_lineno (AsyncFunctionDef name args body decs ln eln) = ln"
| "stmt_lineno (ClassDef name bases body decs ln eln) = ln"
| "stmt_lineno (Expr e ln) = ln"
| "stmt_lineno (Assign targets v ln) = ln"
| "stmt_lineno (If test body orelse ln) = ln"
| "stmt_lineno (ImportFrom module ln) = ln"
| "stmt_lineno (OtherStmt children ln) = ln"

text \<open>An expression statement that is a call whose callee is an attribute access, and
  the attribute of that callee.\<close>

fun is_direct_method_call :: "stmt \<Rightarrow> bool" where
  "is_direct_method_call (Expr (Call (Attribute v attr) args keywords) ln) = True"
| "is_direct_method_call _ = False"

fun called_attr :: "stmt \<Rightarrow> pystr" where
  "called_attr (Expr (Call (Attribute v attr) args keywords) ln) = attr"
| "called_attr _ = []"

text \<open>The name of an entity and the names of its methods, read from its dictionary.\<close>

definition entity_name :: "json \<Rightarrow> error + json" where
  "entity_name e = getitem e (py ''name'')"

definition method_names :: "json \<Rightarrow> (error + json) list" where
  "method_names e =
     (case getitem e (py ''methods'') of
        Inr (JList ms) \<Rightarrow> map entity_name ms
      | _ \<Rightarrow> [])"

section \<open>Example programs\<close>

definition self_args :: arguments where
  "self_args = Arguments [] [py ''self''] None [] None"

definition self_call :: "string \<Rightarrow> int \<Rightarrow> stmt" where
  "self_call m ln = Expr (Call (Attribute (Name (py ''self'')) (py m)) [] []) ln"

text \<open>
  \<^verbatim>\<open>class Invoice:\<close>
  \<^verbatim>\<open>    def on_submit(self):\<close>
  \<^verbatim>\<open>        self.x()\<close>
  \<^verbatim>\<open>        self.y()\<close>
  \<^verbatim>\<open>        self.z()\<close>
  \<^verbatim>\<open>        if self.flag: self.w()\<close>
  \<^verbatim>\<open>        r = self.v()\<close>
\<close>

definition hook_module :: "stmt list" where
  "hook_module =
     [ClassDef (py ''Invoice'') []
        [FunctionDef (py ''on_submit'') self_args
           [self_call ''x'' 3, self_call ''y'' 4, self_call ''z'' 5,
            If (Attribute (Name (py ''self'')) (py ''flag'')) [self_call ''w'' 6] [] 6,
            Assign [Name (py ''r'')]
              (Call (Attribute (Name (py ''self'')) (py ''v'')) [] []) 7]
           [] 2 (Some 7)]
        [] 1 (Some 7)]"

text \<open>
  \<^verbatim>\<open>async def on_submit(self):\<close>
  \<^verbatim>\<open>    self.update_stock()\<close>
  \<^verbatim>\<open>    def helper(): pass\<close>
\<close>

definition async_hook_module :: "stmt list" where
  "async_hook_module =
     [AsyncFunctionDef (py ''on_submit'') self_args
        [self_call ''update_stock'' 2,
         FunctionDef (py ''helper'') (Arguments [] [] None [] None) [OtherStmt [] 3] [] 3 (Some 3)]
        [] 1 (Some 3)]"

text \<open>\<^verbatim>\<open>def __init__(self): pass\<close>, as a method of a class.\<close>

definition init_def :: stmt where
  "init_def = FunctionDef (py ''__init__'') self_args [OtherStmt [] 2] [] 2 (Some 2)"

text \<open>
  \<^verbatim>\<open>def f():\<close>
  \<^verbatim>\<open>    def g(): pass\<close>
  \<^verbatim>\<open>class A:\<close>
  \<^verbatim>\<open>    class B:\<close>
  \<^verbatim>\<open>        def m(self): pass\<close>
  \<^verbatim>\<open>    def k(self):\<close>
  \<^verbatim>\<open>        def inner(): pass\<close>
\<close>

definition no_args :: arguments where
  "no_args = Arguments [] [] None [] None"

definition nested_module :: "stmt list" where
  "nested_module =
     [FunctionDef (py ''f'') no_args
        [FunctionDef (py ''g'') no_args [OtherStmt [] 2] [] 2 (Some 2)] [] 1 (Some 2),
      ClassDef (py ''A'') []
        [ClassDef (py ''B'') []
           [FunctionDef (py ''m'') self_args [OtherStmt [] 5] [] 5 (Some 5)] [] 4 (Some 5),
         FunctionDef (py ''k'') self_args
           [FunctionDef (py ''inner'') no_args [OtherStmt [] 7] [] 7 (Some 7)] [] 6 (Some 7)]
        [] 3 (Some 7)]"

text \<open>
  A directory \<open>pkg\<close> with three candidate files: \<open>a.py\<close> holds \<^verbatim>\<open>def f(): pass\<close>,
  \<open>bad.py\<close> holds \<^verbatim>\<open>def f(:\<close>, which does not parse, and \<open>c.py\<close> holds
  \<^verbatim>\<open>class C: pass\<close>.
\<close>

definition example_host :: host where
  "example_host =
     \<lparr>cleandoc = (\<lambda>s. s),
      is_file = (\<lambda>p. False),
      suffix = (\<lambda>p. []),
      rglob_py = (\<lambda>p. [py ''pkg/a.py'', py ''pkg/bad.py'', py ''pkg/c.py'']),
      read_text = (\<lambda>p.
        if p = py ''pkg/a.py'' then Inr (py ''def f(): pass'')
        else if p = py ''pkg/bad.py'' then Inr (py ''def f(:'')
        else if p = py ''pkg/c.py'' then Inr (py ''class C: pass'')
        else Inl OSError),
      parse = (\<lambda>s.
        if s = py ''def f(): pass'' then
          Inr [FunctionDef (py ''f'') no_args [OtherStmt [] 1] [] 1 (Some 1)]
        else if s = py ''class C: pass'' then
          Inr [ClassDef (py ''C'') [] [OtherStmt [] 1] [] 1 (Some 1)]
        else Inl SyntaxError),
      relative_to_parent = (\<lambda>file_path path. Inr file_path)\<rparr>"

text \<open>The entity that the extractor builds for a top-level node that it extracts.\<close>

definition entity_of :: "host \<Rightarrow> pystr \<Rightarrow> stmt \<Rightarrow> json" where
  "entity_of h src n =
     (if is_class_def n then projr (extract_class h n src)
      else projr (extract_function h n src None))"

text \<open>An entity record with a \<open>type\<close> entry and no \<open>source_code\<close> entry.\<close>

definition spanless :: "json \<Rightarrow> bool" where
  "spanless e =
     (\<not> isl (getitem e (py ''type''))
      \<and> getitem e (py ''source_code'') = Inl (KeyError (py ''source_code'')))"




text \<open>A function whose docstring is 250 times the letter \<open>x\<close>, followed by \<open>pass\<close>.\<close>

definition long_doc_def :: stmt where
  "long_doc_def =
     FunctionDef (py ''f'') no_args
       [Expr (Constant (Str (replicate 250 120))) 2, OtherStmt [] 3] [] 1 (Some 3)"

section \<open>Name resolution\<close>

lemma attribute_loop_chain:
  "attribute_loop (foldl Attribute (Name i) attrs) parts = (parts @ rev attrs, Name i)"
proof (induction attrs arbitrary: parts rule: rev_induct)
  case Nil
  show ?case by simp
next
  case (snoc x xs)
  show ?case by (simp add: snoc.IH)
qed

lemma get_attribute_name_chain:
  "get_attribute_name (foldl Attribute (Name i) attrs) = join (py ''.'') (i # attrs)"
  by (simp add: get_attribute_name_def attribute_loop_chain)

lemma get_decorator_name_chain:
  "get_decorator_name (foldl Attribute (Name i) attrs) = join (py ''.'') (i # attrs)"
proof (cases attrs rule: rev_cases)
  case Nil
  then show ?thesis by simp
next
  case (snoc xs x)
  have "get_decorator_name (foldl Attribute (Name i) (xs @ [x]))
        = get_attribute_name (foldl Attribute (Name i) (xs @ [x]))"
    by simp
  then show ?thesis using snoc by (simp only: get_attribute_name_chain)
qed

lemma attribute_loop_root:
  assumes "\<And>v a. r \<noteq> Attribute v a"
  shows "attribute_loop (foldl Attribute r attrs) parts = (parts @ rev attrs, r)"
proof (induction attrs arbitrary: parts rule: rev_induct)
  case Nil
  show ?case by (cases r) (use assms in auto)
next
  case (snoc x xs)
  show ?case by (simp add: snoc.IH)
qed

lemma get_decorator_name_attribute:
  "get_decorator_name (foldl Attribute r (a # attrs))
   = get_attribute_name (foldl Attribute r (a # attrs))"
  by (cases attrs rule: rev_cases) simp_all

text \<open>An attribute chain on a root that is no identifier resolves to its attribute
  names alone: the loop stops at the root and adds nothing for it.\<close>

lemma get_decorator_name_other_root:
  assumes "\<And>v b. r \<noteq> Attribute v b" and "\<And>i. r \<noteq> Name i"
  shows "get_decorator_name (foldl Attribute r (a # attrs)) = join (py ''.'') (a # attrs)"
proof -
  have "attribute_loop (foldl Attribute r (a # attrs)) [] = (rev (a # attrs), r)"
    using attribute_loop_root [of r "a # attrs" "[]"] assms(1) by simp
  then have "get_attribute_name (foldl Attribute r (a # attrs)) = join (py ''.'') (a # attrs)"
    by (cases r) (use assms in \<open>auto simp: get_attribute_name_def\<close>)
  then show ?thesis
    by (simp only: get_decorator_name_attribute)
qed

text \<open>
  C6. Decorator resolution maps an identifier to itself, the attribute chain
  \<open>i.a1. ... .an\<close> to the dot-joined names in source order, a call to the resolution
  of its callee whatever the arguments, and every other expression to
  \<open>unknown_decorator\<close>. An attribute chain whose root is no identifier (a call, a
  constant, a subscript, any other expression) resolves to its attribute names,
  dot-joined in source order. \<open>@a.b.c\<close> and \<open>@a.b.c(x=1)\<close> both resolve to \<open>a.b.c\<close>,
  \<open>@handlers[0].wrap\<close> to \<open>wrap\<close> and \<open>@make().opt.x\<close> to \<open>opt.x\<close>.
\<close>

theorem decorator_resolution:
  "get_decorator_name (Name i) = i
   \<and> get_decorator_name (foldl Attribute (Name i) attrs) = join (py ''.'') (i # attrs)
   \<and> get_decorator_name (foldl Attribute (Call f args kws) (a # attrs))
       = join (py ''.'') (a # attrs)
   \<and> get_decorator_name (foldl Attribute (Constant c) (a # attrs))
       = join (py ''.'') (a # attrs)
   \<and> get_decorator_name (foldl Attribute (Subscript e1 e2) (a # attrs))
       = join (py ''.'') (a # attrs)
   \<and> get_decorator_name (foldl Attribute (Await e1) (a # attrs))
       = join (py ''.'') (a # attrs)
   \<and> get_decorator_name (foldl Attribute (OtherExpr es) (a # attrs))
       = join (py ''.'') (a # attrs)
   \<and> get_decorator_name (Call f args kws) = get_decorator_name f
   \<and> get_decorator_name (Constant c) = py ''unknown_decorator''
   \<and> get_decorator_name (Subscript e1 e2) = py ''unknown_decorator''
   \<and> get_decorator_name (Await e1) = py ''unknown_decorator''
   \<and> get_decorator_name (OtherExpr es) = py ''unknown_decorator''
   \<and> get_decorator_name (Attribute (Attribute (Name (py ''a'')) (py ''b'')) (py ''c''))
       = py ''a.b.c''
   \<and> get_decorator_name
         (Call (Attribute (Attribute (Name (py ''a'')) (py ''b'')) (py ''c'')) []
            [(Some (py ''x''), Constant (Num 1))])
       = py ''a.b.c''
   \<and> get_decorator_name
         (Attribute (Subscript (Name (py ''handlers'')) (Constant (Num 0))) (py ''wrap''))
       = py ''wrap''
   \<and> get_decorator_name
         (Attribute (Attribute (Call (Name (py ''make'')) [] []) (py ''opt'')) (py ''x''))
       = py ''opt.x''"
proof -
  have roots:
    "get_decorator_name (foldl Attribute (Call f args kws) (a # attrs))
       = join (py ''.'') (a # attrs)"
    "get_decorator_name (foldl Attribute (Constant c) (a # attrs))
       = join (py ''.'') (a # attrs)"
    "get_decorator_name (foldl Attribute (Subscript e1 e2) (a # attrs))
       = join (py ''.'') (a # attrs)"
    "get_decorator_name (foldl Attribute (Await e1) (a # attrs))
       = join (py ''.'') (a # attrs)"
    "get_decorator_name (foldl Attribute (OtherExpr es) (a # attrs))
       = join (py ''.'') (a # attrs)"
    by (rule get_decorator_name_other_root; simp)+
  have examples:
    "get_decorator_name (Attribute (Attribute (Name (py ''a'')) (py ''b'')) (py ''c''))
       = py ''a.b.c''"
    "get_decorator_name
         (Call (Attribute (Attribute (Name (py ''a'')) (py ''b'')) (py ''c'')) []
            [(Some (py ''x''), Constant (Num 1))])
       = py ''a.b.c''"
    "get_decorator_name
         (Attribute (Subscript (Name (py ''handlers'')) (Constant (Num 0))) (py ''wrap''))
       = py ''wrap''"
    "get_decorator_name
         (Attribute (Attribute (Call (Name (py ''make'')) [] []) (py ''opt'')) (py ''x''))
       = py ''opt.x''"
    by (simp_all add: get_attribute_name_def py_def)
  have plain:
    "get_decorator_name (Name i) = i"
    "get_decorator_name (Call f args kws) = get_decorator_name f"
    "get_decorator_name (Constant c) = py ''unknown_decorator''"
    "get_decorator_name (Subscript e1 e2) = py ''unknown_decorator''"
    "get_decorator_name (Await e1) = py ''unknown_decorator''"
    "get_decorator_name (OtherExpr es) = py ''unknown_decorator''"
    by simp_all
  show ?thesis
    by (intro conjI plain roots examples get_decorator_name_chain)
qed

section \<open>The visitor\<close>

lemma analyze_on_submit_rules:
  "business_rules (analyze_on_submit body a) =
   business_rules a @
     map (\<lambda>s. business_rule (called_attr s) (stmt_lineno s)) (filter is_direct_method_call body)"
  by (induction body a rule: analyze_on_submit.induct) simp_all

lemma analyze_on_submit_methods_found:
  "methods_found (analyze_on_submit body a) = methods_found a"
  by (induction body a rule: analyze_on_submit.induct) simp_all

lemma business_rule_fields:
  "getitem (business_rule attr ln) (py ''source_method'') = Inr (JStr (py ''on_submit''))"
  "getitem (business_rule attr ln) (py ''calls'') = Inr (JStr attr)"
  "getitem (business_rule attr ln) (py ''line_number'') = Inr (JInt ln)"
  by (simp_all add: business_rule_def py_def)

lemma hook_module_rules:
  "business_rules (analyze_tree hook_module) =
   [business_rule (py ''x'') 3, business_rule (py ''y'') 4, business_rule (py ''z'') 5]"
  by (simp add: analyze_tree_def hook_module_def new_analyzer_def self_call_def Let_def)

text \<open>
  C2. The hook analyzer appends one record per top-level expression statement of the
  hook body that is a call on an attribute access, in source order, each with
  \<open>source_method = on_submit\<close> and the statement's line; a call inside an \<open>if\<close> and a
  call whose result is assigned add nothing. A hook with the top-level calls
  \<open>self.x()\<close>, \<open>self.y()\<close>, \<open>self.z()\<close>, an \<open>if\<close> holding \<open>self.w()\<close> and the
  assignment \<open>r = self.v()\<close> gives the three records for \<open>x\<close>, \<open>y\<close>, \<open>z\<close>.
\<close>

theorem hook_rules_top_level_calls:
  "business_rules (analyze_on_submit body a) =
     business_rules a @
       map (\<lambda>s. business_rule (called_attr s) (stmt_lineno s))
         (filter is_direct_method_call body)
   \<and> map (\<lambda>r. getitem r (py ''source_method'')) (business_rules (analyze_on_submit body new_analyzer))
       = replicate (length (filter is_direct_method_call body)) (Inr (JStr (py ''on_submit'')))
   \<and> map (\<lambda>r. getitem r (py ''line_number'')) (business_rules (analyze_on_submit body new_analyzer))
       = map (\<lambda>s. Inr (JInt (stmt_lineno s))) (filter is_direct_method_call body)
   \<and> analyze_on_submit [If test (Expr (Call (Attribute v attr) args kws) l1 # others) orelse l0] a = a
   \<and> analyze_on_submit [Assign targets (Call (Attribute v attr) args kws) l1] a = a
   \<and> business_rules (analyze_tree hook_module) =
       [business_rule (py ''x'') 3, business_rule (py ''y'') 4, business_rule (py ''z'') 5]"
proof -
  have "map (\<lambda>r. getitem r (py ''source_method'')) (business_rules (analyze_on_submit body new_analyzer))
        = replicate (length (filter is_direct_method_call body)) (Inr (JStr (py ''on_submit'')))"
    by (simp add: analyze_on_submit_rules new_analyzer_def business_rule_fields o_def
          map_replicate_const)
  moreover
  have "map (\<lambda>r. getitem r (py ''line_number'')) (business_rules (analyze_on_submit body new_analyzer))
        = map (\<lambda>s. Inr (JInt (stmt_lineno s))) (filter is_direct_method_call body)"
    by (simp add: analyze_on_submit_rules new_analyzer_def business_rule_fields o_def)
  ultimately show ?thesis
    by (simp add: analyze_on_submit_rules hook_module_rules)
qed

text \<open>
  C10. The name recorded for a matching call is the attribute of its callee, that is
  the last segment only: for the hook statement \<open>a.b.c()\<close> the record says \<open>c\<close>, while
  the dotted name of the callee is \<open>a.b.c\<close>.
\<close>

theorem hook_rule_records_last_segment:
  "business_rules (analyze_on_submit [Expr (Call (Attribute v attr) args kws) ln] a)
     = business_rules a @ [business_rule attr ln]
   \<and> getitem (business_rule attr ln) (py ''calls'') = Inr (JStr attr)
   \<and> map (\<lambda>r. getitem r (py ''calls''))
         (business_rules (analyze_tree
            [FunctionDef (py ''on_submit'') self_args
               [Expr (Call (Attribute (Attribute (Name (py ''a'')) (py ''b'')) (py ''c'')) [] []) 2]
               [] 1 (Some 2)]))
       = [Inr (JStr (py ''c''))]
   \<and> get_attribute_name (Attribute (Attribute (Name (py ''a'')) (py ''b'')) (py ''c'')) = py ''a.b.c''
   \<and> py ''c'' \<noteq> py ''a.b.c''"
proof -
  have "get_attribute_name (Attribute (Attribute (Name (py ''a'')) (py ''b'')) (py ''c'')) = py ''a.b.c''"
    by (simp add: get_attribute_name_def py_def)
  moreover have "py ''c'' \<noteq> py ''a.b.c''"
    by (simp add: py_def)
  ultimately show ?thesis
    by (simp add: business_rule_fields analyze_tree_def new_analyzer_def Let_def)
qed

lemma visit_methods_found:
  "methods_found (visit s a) = methods_found a + length (filter is_sync_def (walk s))"
  "methods_found (generic_visit ss a) =
     methods_found a + length (filter is_sync_def (walk_list ss))"
  by (induction s a and ss a rule: visit_generic_visit.induct)
     (simp_all add: analyze_on_submit_methods_found Let_def split: option.splits)

lemma visit_no_hook:
  "\<not> list_ex is_sync_hook (walk s) \<Longrightarrow> business_rules (visit s a) = business_rules a"
  "\<not> list_ex is_sync_hook (walk_list ss) \<Longrightarrow>
     business_rules (generic_visit ss a) = business_rules a"
  by (induction s a and ss a rule: visit_generic_visit.induct)
     (simp_all add: Let_def split: option.splits)

text \<open>
  C9. \<open>methods_found\<close> grows by the number of synchronous function definitions among
  all nodes of the visited tree, at any depth; an asynchronous definition adds only
  what its body adds; and a tree without a synchronous definition named \<open>on_submit\<close>
  yields no business rule, so an \<open>async def on_submit\<close> is not analysed.
\<close>

theorem methods_found_counts_sync_defs:
  "methods_found (generic_visit tree a)
     = methods_found a + length (filter is_sync_def (walk_list tree))
   \<and> methods_found (visit (AsyncFunctionDef name args body decs ln eln) a)
     = methods_found a + length (filter is_sync_def (walk_list body))
   \<and> (\<not> list_ex is_sync_hook (walk_list tree) \<longrightarrow>
        business_rules (generic_visit tree a) = business_rules a)"
  by (simp add: visit_methods_found visit_no_hook del: visit.simps)

theorem methods_found_counts_sync_defs_witness:
  "\<not> list_ex is_sync_hook (walk_list async_hook_module)
   \<and> methods_found (analyze_tree async_hook_module) = 1
   \<and> business_rules (analyze_tree async_hook_module) = []"
  using methods_found_counts_sync_defs [of async_hook_module new_analyzer]
  by (simp add: analyze_tree_def async_hook_module_def new_analyzer_def self_call_def py_def)

section \<open>Entity records\<close>

lemma function_entity_fields:
  "getitem (function_entity h b name args body decs ln eln pc) (py ''kind'')
     = Inr (JStr (function_kind name pc))"
  "getitem (function_entity h b name args body decs ln eln pc) (py ''name'') = Inr (JStr name)"
  "getitem (function_entity h b name args body decs ln eln pc) (py ''docstring'')
     = Inr (JStr (docstring_field (docstring_or_empty h body)))"
  "getitem (function_entity h b name args body decs ln eln pc) (py ''methods'')
     = Inl (KeyError (py ''methods''))"
  "getitem (function_entity h b name args body decs ln eln pc) (py ''source_code'')
     = Inl (KeyError (py ''source_code''))"
  "getitem (function_entity h b name args body decs ln eln pc) (py ''type'')
     = Inr (JStr (py ''function''))"
  by (simp_all add: function_entity_def py_def)

lemma extract_function_ok:
  "is_function_like n \<Longrightarrow> \<exists>e. extract_function h n src pc = Inr e"
  by (cases n) simp_all

lemma extract_function_kind:
  "extract_function h n src pc = Inr e \<Longrightarrow>
   getitem e (py ''kind'') = Inr (JStr (function_kind (node_name n) pc))"
  by (cases n) (auto simp: function_entity_fields)

text \<open>
  C5. A function-like node with an owning class (a class name is never empty) is a
  constructor when its name is \<open>__init__\<close>, else a private method when its name begins
  with an underscore, else a method; without an owning class it is a function. The
  name \<open>__init__\<close> begins with an underscore and is a constructor all the same.
\<close>

theorem function_kind_priority:
  assumes "is_function_like node" and "owner \<noteq> []"
  shows "\<exists>m f. extract_function h node src (Some owner) = Inr m
           \<and> extract_function h node src None = Inr f
           \<and> getitem m (py ''kind'') =
               Inr (JStr (if node_name node = py ''__init__'' then py ''constructor''
                          else if startswith (node_name node) (py ''_'') then py ''private_method''
                          else py ''method''))
           \<and> getitem f (py ''kind'') = Inr (JStr (py ''function''))"
proof -
  obtain m where m: "extract_function h node src (Some owner) = Inr m"
    using extract_function_ok [OF assms(1)] by blast
  obtain f where f: "extract_function h node src None = Inr f"
    using extract_function_ok [OF assms(1)] by blast
  have "getitem m (py ''kind'') = Inr (JStr (function_kind (node_name node) (Some owner)))"
    by (rule extract_function_kind [OF m])
  moreover
  have "getitem f (py ''kind'') = Inr (JStr (function_kind (node_name node) None))"
    by (rule extract_function_kind [OF f])
  ultimately show ?thesis
    using m f assms(2) by (simp add: function_kind_def)
qed

theorem function_kind_priority_witness:
  "is_function_like init_def \<and> py ''Invoice'' \<noteq> []
   \<and> startswith (node_name init_def) (py ''_'')
   \<and> (\<exists>m f. extract_function example_host init_def [] (Some (py ''Invoice'')) = Inr m
           \<and> extract_function example_host init_def [] None = Inr f
           \<and> getitem m (py ''kind'') = Inr (JStr (py ''constructor''))
           \<and> getitem f (py ''kind'') = Inr (JStr (py ''function'')))"
proof -
  have a: "is_function_like init_def" by (simp add: init_def_def)
  have b: "py ''Invoice'' \<noteq> []" by (simp add: py_def)
  have c: "node_name init_def = py ''__init__''" by (simp add: init_def_def)
  have d: "startswith (py ''__init__'') (py ''_'')" by (simp add: startswith_def py_def)
  show ?thesis
    using function_kind_priority [OF a b, of example_host "[]"] a b c d by simp
qed

lemma collect_methods_eq:
  "collect_methods h body src cn acc =
   Inr (acc @ map (\<lambda>n. projr (extract_function h n src (Some cn)))
                (filter is_function_like body))"
  by (induction h body src cn acc rule: collect_methods.induct) simp_all

lemma docstring_field_take:
  "docstring_field (docstring_or_empty h body)
   = (case get_docstring h body of None \<Rightarrow> [] | Some d \<Rightarrow> take 200 d)"
  by (simp add: docstring_field_def docstring_or_empty_def split: option.splits)

lemma class_entity_docstring:
  "getitem (JDict
      [(py ''type'', t), (py ''name'', nm), (py ''line'', l),
       (py ''end_line'', el), (py ''bases'', bs), (py ''decorators'', ds),
       (py ''docstring'', doc), (py ''methods'', ms),
       (py ''method_count'', mc)]) (py ''docstring'') = Inr doc"
  by (simp add: py_def)

lemma docstring_field_present:
  "docstring_field (docstring_or_empty h (Expr (Constant (Str doc)) dl # rest))
   = take 200 (cleandoc h doc)"
  by (simp add: docstring_field_def docstring_or_empty_def)

lemma docstring_field_absent:
  assumes "\<And>doc dl. s \<noteq> Expr (Constant (Str doc)) dl"
  shows "docstring_field (docstring_or_empty h (s # rest)) = []"
    and "docstring_field (docstring_or_empty h []) = []"
proof -
  have "get_docstring h (s # rest) = None"
    using assms by (cases "(h, s # rest)" rule: get_docstring.cases) simp_all
  then show "docstring_field (docstring_or_empty h (s # rest)) = []"
    by (simp add: docstring_field_def docstring_or_empty_def)
  show "docstring_field (docstring_or_empty h []) = []"
    by (simp add: docstring_field_def docstring_or_empty_def)
qed

text \<open>
  C8. When the body of a function, an asynchronous function or a class begins with a
  string constant as an expression statement, the \<open>docstring\<close> entry of the entity is
  the first 200 characters of that string as \<open>inspect.cleandoc\<close> returns it, nothing
  appended; when the body begins with any other statement the entry is the empty
  string. A docstring of 250 letters \<open>x\<close> is recorded as 200 letters \<open>x\<close>.
\<close>

theorem docstring_truncated:
  "(\<exists>e. extract_function h (FunctionDef name args (Expr (Constant (Str doc)) dl # rest) decs ln eln)
           src pc = Inr e
        \<and> getitem e (py ''docstring'') = Inr (JStr (take 200 (cleandoc h doc))))
   \<and> (\<exists>e. extract_function h
             (AsyncFunctionDef name args (Expr (Constant (Str doc)) dl # rest) decs ln eln)
             src pc = Inr e
        \<and> getitem e (py ''docstring'') = Inr (JStr (take 200 (cleandoc h doc))))
   \<and> (\<exists>e. extract_class h (ClassDef name bases (Expr (Constant (Str doc)) dl # rest) decs ln eln)
           src = Inr e
        \<and> getitem e (py ''docstring'') = Inr (JStr (take 200 (cleandoc h doc))))
   \<and> length (take 200 (cleandoc h doc)) \<le> 200
   \<and> ((\<forall>doc dl. s \<noteq> Expr (Constant (Str doc)) dl) \<longrightarrow>
        (\<exists>e. extract_function h (FunctionDef name args (s # rest) decs ln eln) src pc = Inr e
           \<and> getitem e (py ''docstring'') = Inr (JStr []))
        \<and> (\<exists>e. extract_function h (AsyncFunctionDef name args (s # rest) decs ln eln) src pc
                = Inr e
           \<and> getitem e (py ''docstring'') = Inr (JStr []))
        \<and> (\<exists>e. extract_class h (ClassDef name bases (s # rest) decs ln eln) src = Inr e
           \<and> getitem e (py ''docstring'') = Inr (JStr [])))
   \<and> getitem (projr (extract_function example_host long_doc_def [] None)) (py ''docstring'')
       = Inr (JStr (replicate 200 120))"
proof -
  have present:
    "\<exists>e. extract_function h (FunctionDef name args (Expr (Constant (Str doc)) dl # rest) decs ln eln)
           src pc = Inr e
        \<and> getitem e (py ''docstring'') = Inr (JStr (take 200 (cleandoc h doc)))"
    "\<exists>e. extract_function h
             (AsyncFunctionDef name args (Expr (Constant (Str doc)) dl # rest) decs ln eln)
             src pc = Inr e
        \<and> getitem e (py ''docstring'') = Inr (JStr (take 200 (cleandoc h doc)))"
    "\<exists>e. extract_class h (ClassDef name bases (Expr (Constant (Str doc)) dl # rest) decs ln eln)
           src = Inr e
        \<and> getitem e (py ''docstring'') = Inr (JStr (take 200 (cleandoc h doc)))"
    by (simp_all add: function_entity_fields collect_methods_eq class_entity_docstring
          docstring_field_present del: get_docstring.simps getitem.simps)
  have absent: "(\<forall>doc dl. s \<noteq> Expr (Constant (Str doc)) dl) \<longrightarrow>
        (\<exists>e. extract_function h (FunctionDef name args (s # rest) decs ln eln) src pc = Inr e
           \<and> getitem e (py ''docstring'') = Inr (JStr []))
        \<and> (\<exists>e. extract_function h (AsyncFunctionDef name args (s # rest) decs ln eln) src pc
                = Inr e
           \<and> getitem e (py ''docstring'') = Inr (JStr []))
        \<and> (\<exists>e. extract_class h (ClassDef name bases (s # rest) decs ln eln) src = Inr e
           \<and> getitem e (py ''docstring'') = Inr (JStr []))"
  proof
    assume "\<forall>doc dl. s \<noteq> Expr (Constant (Str doc)) dl"
    then have "docstring_field (docstring_or_empty h (s # rest)) = []"
      by (intro docstring_field_absent(1)) simp
    then show "(\<exists>e. extract_function h (FunctionDef name args (s # rest) decs ln eln) src pc = Inr e
           \<and> getitem e (py ''docstring'') = Inr (JStr []))
        \<and> (\<exists>e. extract_function h (AsyncFunctionDef name args (s # rest) decs ln eln) src pc
                = Inr e
           \<and> getitem e (py ''docstring'') = Inr (JStr []))
        \<and> (\<exists>e. extract_class h (ClassDef name bases (s # rest) decs ln eln) src = Inr e
           \<and> getitem e (py ''docstring'') = Inr (JStr []))"
      by (simp add: function_entity_fields collect_methods_eq class_entity_docstring
            del: getitem.simps)
  qed
  have long: "getitem (projr (extract_function example_host long_doc_def [] None)) (py ''docstring'')
       = Inr (JStr (replicate 200 120))"
    by (simp add: long_doc_def_def function_entity_fields docstring_field_present
          example_host_def del: get_docstring.simps)
  have "length (take 200 (cleandoc h doc)) \<le> 200"
    by simp
  then show ?thesis
    using present absent long by blast
qed

theorem docstring_truncated_witness:
  "(\<forall>doc dl. OtherStmt [] 2 \<noteq> Expr (Constant (Str doc)) dl)
   \<and> (\<exists>e. extract_function example_host init_def [] (Some (py ''Invoice'')) = Inr e
        \<and> getitem e (py ''docstring'') = Inr (JStr []))
   \<and> (\<exists>e. extract_class example_host
             (ClassDef (py ''C'') [] [OtherStmt [] 2] [] 1 (Some 2)) [] = Inr e
        \<and> getitem e (py ''docstring'') = Inr (JStr []))
   \<and> (\<exists>e. extract_function example_host long_doc_def [] None = Inr e
        \<and> getitem e (py ''docstring'') = Inr (JStr (replicate 200 120)))"
proof -
  have no_doc: "\<forall>doc dl. OtherStmt [] 2 \<noteq> Expr (Constant (Str doc)) dl"
    by simp
  have long: "\<exists>e. extract_function example_host long_doc_def [] None = Inr e
        \<and> getitem e (py ''docstring'') = Inr (JStr (replicate 200 120))"
    using docstring_truncated
      [where h = example_host and name = "py ''f''" and args = no_args
         and doc = "replicate 250 120" and dl = 2 and rest = "[OtherStmt [] 3]"
         and decs = "[]" and ln = 1 and eln = "Some 3" and src = "[]" and pc = None
         and bases = "[]" and s = "OtherStmt [] 2"]
    by (simp add: long_doc_def_def example_host_def)
  show ?thesis
    using docstring_truncated
      [where s = "OtherStmt [] 2" and h = example_host and name = "py ''__init__''"
         and args = self_args and rest = "[]" and decs = "[]" and ln = 2 and eln = "Some 2"
         and src = "[]" and pc = "Some (py ''Invoice'')" and bases = "[]"
         and doc = "[]" and dl = 0]
      docstring_truncated
      [where s = "OtherStmt [] 2" and h = example_host and name = "py ''C''"
         and bases = "[]" and rest = "[]" and decs = "[]" and ln = 1 and eln = "Some 2"
         and src = "[]" and args = no_args and pc = None and doc = "[]" and dl = 0]
      no_doc long
    by (simp add: init_def_def)
qed

section \<open>The extraction depth\<close>

lemma method_entity_name:
  "is_function_like n \<Longrightarrow>
   entity_name (projr (extract_function h n src pc)) = Inr (JStr (node_name n))"
  by (cases n) (simp_all add: entity_name_def function_entity_fields)

lemma entity_of_name:
  "is_class_def n \<or> is_function_like n \<Longrightarrow>
   entity_name (entity_of h src n) = Inr (JStr (node_name n))"
proof (cases n)
  case (ClassDef name bases body decs ln eln)
  have "getitem (JDict
            [(py ''type'', t), (py ''name'', JStr nm), (py ''line'', l),
             (py ''end_line'', el), (py ''bases'', bs), (py ''decorators'', ds),
             (py ''docstring'', doc), (py ''methods'', ms),
             (py ''method_count'', mc)]) (py ''name'') = Inr (JStr nm)"
    for t nm l el bs ds doc ms mc
    by (simp add: py_def)
  then show ?thesis
    using ClassDef by (simp add: entity_of_def entity_name_def collect_methods_eq)
qed (simp_all add: entity_of_def entity_name_def function_entity_fields)

lemma entity_of_methods:
  "is_class_def n \<or> is_function_like n \<Longrightarrow>
   method_names (entity_of h src n) =
     (if is_class_def n
      then map (\<lambda>m. Inr (JStr (node_name m))) (filter is_function_like (node_body n))
      else [])"
proof (cases n)
  case (ClassDef name bases body decs ln eln)
  have "getitem (JDict
            [(py ''type'', t), (py ''name'', nm), (py ''line'', l),
             (py ''end_line'', el), (py ''bases'', bs), (py ''decorators'', ds),
             (py ''docstring'', doc), (py ''methods'', JList ms),
             (py ''method_count'', mc)]) (py ''methods'') = Inr (JList ms)"
    for t nm l el bs ds doc ms mc
    by (simp add: py_def)
  then show ?thesis
    using ClassDef
    by (simp add: entity_of_def method_names_def collect_methods_eq method_entity_name)
qed (simp_all add: entity_of_def method_names_def function_entity_fields)

lemma extract_top_level_eq:
  "extract_top_level h tree src acc =
   Inr (acc @ map (entity_of h src) (filter (\<lambda>n. is_class_def n \<or> is_function_like n) tree))"
  by (induction h tree src acc rule: extract_top_level.induct)
     (simp_all add: entity_of_def collect_methods_eq)

lemma map_filter_cong:
  "(\<And>x. P x \<Longrightarrow> f x = g x) \<Longrightarrow> map f (filter P xs) = map g (filter P xs)"
  by (induction xs) simp_all

lemma nested_module_entities:
  "map entity_name (projr (extract_top_level h nested_module src []))
     = [Inr (JStr (py ''f'')), Inr (JStr (py ''A''))]"
  "map method_names (projr (extract_top_level h nested_module src []))
     = [[], [Inr (JStr (py ''k''))]]"
  by (simp_all add: extract_top_level_eq nested_module_def entity_of_name entity_of_methods)

text \<open>
  C7. Extraction yields one entity per class or function definition of the module
  body, in order, and for a class one method per function definition of the class
  body; a function entity has no methods. Nothing else yields a record: a function's
  entity does not depend on what follows the first statement of its body, and in the
  module above the nested \<open>g\<close>, \<open>B\<close>, \<open>m\<close> and \<open>inner\<close> are absent from the result.
\<close>

theorem extraction_depth_limit:
  "(\<exists>ents. extract_top_level h tree src [] = Inr ents
      \<and> map entity_name ents =
          map (\<lambda>n. Inr (JStr (node_name n)))
            (filter (\<lambda>n. is_class_def n \<or> is_function_like n) tree)
      \<and> map method_names ents =
          map (\<lambda>n. if is_class_def n
                   then map (\<lambda>m. Inr (JStr (node_name m)))
                          (filter is_function_like (node_body n))
                   else [])
            (filter (\<lambda>n. is_class_def n \<or> is_function_like n) tree))
   \<and> extract_function h (FunctionDef name args (s # body) decs ln eln) src pc
       = extract_function h (FunctionDef name args [s] decs ln eln) src pc
   \<and> extract_function h (AsyncFunctionDef name args (s # body) decs ln eln) src pc
       = extract_function h (AsyncFunctionDef name args [s] decs ln eln) src pc
   \<and> map entity_name (projr (extract_top_level h nested_module src []))
       = [Inr (JStr (py ''f'')), Inr (JStr (py ''A''))]
   \<and> map method_names (projr (extract_top_level h nested_module src []))
       = [[], [Inr (JStr (py ''k''))]]"
proof -
  have names: "map (entity_name \<circ> entity_of h src)
                 (filter (\<lambda>n. is_class_def n \<or> is_function_like n) tree)
        = map (\<lambda>n. Inr (JStr (node_name n)))
            (filter (\<lambda>n. is_class_def n \<or> is_function_like n) tree)"
    by (rule map_filter_cong) (simp add: entity_of_name)
  have methods: "map (method_names \<circ> entity_of h src)
                   (filter (\<lambda>n. is_class_def n \<or> is_function_like n) tree)
        = map (\<lambda>n. if is_class_def n
                   then map (\<lambda>m. Inr (JStr (node_name m)))
                          (filter is_function_like (node_body n))
                   else [])
            (filter (\<lambda>n. is_class_def n \<or> is_function_like n) tree)"
    by (rule map_filter_cong) (simp add: entity_of_methods)
  have body: "docstring_or_empty h (s # body) = docstring_or_empty h [s]"
    by (cases "(h, s # body)" rule: get_docstring.cases)
       (simp_all add: docstring_or_empty_def)
  have main: "\<exists>ents. extract_top_level h tree src [] = Inr ents
      \<and> map entity_name ents =
          map (\<lambda>n. Inr (JStr (node_name n)))
            (filter (\<lambda>n. is_class_def n \<or> is_function_like n) tree)
      \<and> map method_names ents =
          map (\<lambda>n. if is_class_def n
                   then map (\<lambda>m. Inr (JStr (node_name m)))
                          (filter is_function_like (node_body n))
                   else [])
            (filter (\<lambda>n. is_class_def n \<or> is_function_like n) tree)"
    using names methods by (simp add: extract_top_level_eq)
  have sync: "extract_function h (FunctionDef name args (s # body) decs ln eln) src pc
       = extract_function h (FunctionDef name args [s] decs ln eln) src pc"
    by (simp add: function_entity_def body)
  have async: "extract_function h (AsyncFunctionDef name args (s # body) decs ln eln) src pc
       = extract_function h (AsyncFunctionDef name args [s] decs ln eln) src pc"
    by (simp add: function_entity_def body)
  show ?thesis
    by (intro conjI main sync async nested_module_entities)
qed

section \<open>The catalog builder\<close>

lemma files_loop_append:
  "files_loop h path (xs @ ys) catalog = files_loop h path ys (files_loop h path xs catalog)"
  by (induction xs arbitrary: catalog) simp_all

lemma failing_file_raises:
  assumes "read_text h bad = Inl e \<or> (\<exists>source. read_text h bad = Inr source \<and> parse h source = Inl e)"
  shows "try_file h path bad catalog = Inl e"
  using assms by (auto simp: try_file_def extract_entities_from_file_def)

lemma example_files:
  "extract_entities_from_file example_host (py ''pkg/a.py'')
     = Inr [function_entity example_host False (py ''f'') no_args [OtherStmt [] 1] [] 1 (Some 1) None]"
  "extract_entities_from_file example_host (py ''pkg/bad.py'') = Inl SyntaxError"
  "\<exists>c. extract_entities_from_file example_host (py ''pkg/c.py'') = Inr [c]"
  by (simp_all add: extract_entities_from_file_def example_host_def py_def)

text \<open>
  C3. When reading or parsing one candidate file raises, the exception is raised inside
  the \<open>try\<close> block of that file and the run returns the catalog that the other
  candidates alone give, whatever their number and order: the failing file adds
  nothing and changes nothing for the others.
\<close>

theorem per_file_failure_isolated:
  assumes "python_files h path = before @ bad # after"
    and "read_text h bad = Inl e
         \<or> (\<exists>source. read_text h bad = Inr source \<and> parse h source = Inl e)"
  shows "try_file h path bad catalog = Inl e
         \<and> extract_entities_from_directory h path = files_loop h path (before @ after) []"
proof -
  have raised: "try_file h path bad c = Inl e" for c
    by (rule failing_file_raises [OF assms(2)])
  have "files_loop h path (before @ bad # after) [] = files_loop h path (before @ after) []"
    by (simp add: files_loop_append raised)
  then show ?thesis
    using raised by (simp add: extract_entities_from_directory_def assms(1))
qed

theorem per_file_failure_isolated_witness:
  "python_files example_host (py ''pkg'') = [py ''pkg/a.py''] @ py ''pkg/bad.py'' # [py ''pkg/c.py'']
   \<and> (\<exists>source. read_text example_host (py ''pkg/bad.py'') = Inr source
          \<and> parse example_host source = Inl SyntaxError)
   \<and> try_file example_host (py ''pkg'') (py ''pkg/bad.py'') [] = Inl SyntaxError
   \<and> extract_entities_from_directory example_host (py ''pkg'') =
       [(py ''pkg/a.py'',
           JList (projr (extract_entities_from_file example_host (py ''pkg/a.py'')))),
        (py ''pkg/c.py'',
           JList (projr (extract_entities_from_file example_host (py ''pkg/c.py''))))]"
proof -
  have files: "python_files example_host (py ''pkg'')
               = [py ''pkg/a.py''] @ py ''pkg/bad.py'' # [py ''pkg/c.py'']"
    by (simp add: python_files_def example_host_def)
  have bad: "read_text example_host (py ''pkg/bad.py'') = Inl SyntaxError
             \<or> (\<exists>source. read_text example_host (py ''pkg/bad.py'') = Inr source
                  \<and> parse example_host source = Inl SyntaxError)"
    by (simp add: example_host_def py_def)
  have rel: "relative_to_parent example_host f p = Inr f" for f p
    by (simp add: example_host_def)
  have distinct: "py ''pkg/a.py'' \<noteq> py ''pkg/c.py''"
    by (simp add: py_def)
  obtain c where c: "extract_entities_from_file example_host (py ''pkg/c.py'') = Inr [c]"
    using example_files(3) by blast
  have rest: "files_loop example_host (py ''pkg'') ([py ''pkg/a.py''] @ [py ''pkg/c.py'']) [] =
       [(py ''pkg/a.py'',
           JList (projr (extract_entities_from_file example_host (py ''pkg/a.py'')))),
        (py ''pkg/c.py'',
           JList (projr (extract_entities_from_file example_host (py ''pkg/c.py''))))]"
    using distinct by (simp add: try_file_def example_files(1) c rel)
  show ?thesis
    using per_file_failure_isolated [OF files bad, of "[]"] files bad rest
    by (simp add: example_host_def py_def)
qed

section \<open>The document flattener\<close>

lemma entity_of_spanless:
  assumes "is_class_def n \<or> is_function_like n"
  shows "spanless (entity_of h src n)"
proof (cases n)
  case (ClassDef name bases body decs ln eln)
  have "spanless (JDict
            [(py ''type'', t), (py ''name'', nm), (py ''line'', l),
             (py ''end_line'', el), (py ''bases'', bs), (py ''decorators'', ds),
             (py ''docstring'', doc), (py ''methods'', ms),
             (py ''method_count'', mc)])"
    for t nm l el bs ds doc ms mc
    by (simp add: spanless_def py_def)
  then show ?thesis
    using ClassDef by (simp add: entity_of_def collect_methods_eq)
next
  case (FunctionDef name args body decs ln eln)
  then show ?thesis
    by (simp add: entity_of_def spanless_def function_entity_fields)
next
  case (AsyncFunctionDef name args body decs ln eln)
  then show ?thesis
    by (simp add: entity_of_def spanless_def function_entity_fields)
qed (use assms in simp_all)

lemma extract_top_level_spanless:
  assumes "extract_top_level h tree src [] = Inr ents" and "e \<in> set ents"
  shows "spanless e"
  using assms by (auto simp: extract_top_level_eq entity_of_spanless)

lemma entities_loop_spanless:
  assumes "spanless e"
  shows "entities_loop file (e # es) documents = Inl (KeyError (py ''source_code''))"
proof -
  obtain ty where ty: "getitem e (py ''type'') = Inr ty"
    using assms by (cases "getitem e (py ''type'')") (simp_all add: spanless_def)
  have sc: "getitem e (py ''source_code'') = Inl (KeyError (py ''source_code''))"
    using assms by (simp add: spanless_def)
  show ?thesis
    by (simp add: ty sc and_then_def)
qed

text \<open>Every value of a catalog that the loop over the files builds is a non-empty
  list of entity records without source text.\<close>

lemma dict_set_values:
  assumes "\<forall>kv \<in> set d. P (snd kv)" and "P v"
  shows "\<forall>kv \<in> set (dict_set d k v). P (snd kv)"
  using assms by (induction d k v rule: dict_set.induct) auto

lemma try_file_values:
  assumes "try_file h path f catalog = Inr catalog'"
    and "\<forall>kv \<in> set catalog. \<exists>e es. snd kv = JList (e # es) \<and> spanless e"
  shows "\<forall>kv \<in> set catalog'. \<exists>e es. snd kv = JList (e # es) \<and> spanless e"
proof (cases "extract_entities_from_file h f")
  case (Inl err)
  then show ?thesis using assms(1) by (simp add: try_file_def)
next
  case (Inr entities)
  show ?thesis
  proof (cases entities)
    case Nil
    then show ?thesis using assms Inr by (simp add: try_file_def)
  next
    case (Cons e es)
    obtain src tree where "extract_top_level h tree src [] = Inr (e # es)"
      using Inr Cons
      by (auto simp: extract_entities_from_file_def split: sum.splits)
    then have "spanless e"
      by (rule extract_top_level_spanless) simp
    then have new: "\<exists>e' es'. JList entities = JList (e' # es') \<and> spanless e'"
      using Cons by simp
    obtain rel where rel: "relative_to_parent h f path = Inr rel"
      and cat: "catalog' = dict_set catalog rel (JList entities)"
      using assms(1) Inr Cons by (auto simp: try_file_def split: sum.splits)
    show ?thesis
      unfolding cat
      by (rule dict_set_values [where P = "\<lambda>v. \<exists>e es. v = JList (e # es) \<and> spanless e"])
         (use assms(2) new in auto)
  qed
qed

lemma files_loop_values:
  assumes "\<forall>kv \<in> set catalog. \<exists>e es. snd kv = JList (e # es) \<and> spanless e"
  shows "\<forall>kv \<in> set (files_loop h path files catalog).
           \<exists>e es. snd kv = JList (e # es) \<and> spanless e"
  using assms
proof (induction files arbitrary: catalog)
  case Nil
  then show ?case by simp
next
  case (Cons f files)
  show ?case
  proof (cases "try_file h path f catalog")
    case (Inl err)
    then show ?thesis using Cons by simp
  next
    case (Inr catalog')
    have "\<forall>kv \<in> set catalog'. \<exists>e es. snd kv = JList (e # es) \<and> spanless e"
      by (rule try_file_values [OF Inr Cons.prems])
    then show ?thesis using Cons.IH Inr by simp
  qed
qed

text \<open>The flattener raises \<open>KeyError\<close> on every catalog that the extractor can write,
  the empty one apart.\<close>

lemma flattener_on_extractor_catalog:
  assumes "extract_entities_from_directory h path \<noteq> []"
  shows "build_documents (JDict (extract_entities_from_directory h path))
         = Inl (KeyError (py ''source_code''))"
proof -
  obtain k v rest where cat: "extract_entities_from_directory h path = (k, v) # rest"
    using assms by (cases "extract_entities_from_directory h path") auto
  have "\<forall>kv \<in> set (extract_entities_from_directory h path).
          \<exists>e es. snd kv = JList (e # es) \<and> spanless e"
    unfolding extract_entities_from_directory_def by (rule files_loop_values) simp
  then obtain e es where v: "v = JList (e # es)" and e: "spanless e"
    using cat by auto
  show ?thesis
    by (simp add: cat v and_then_def entities_loop_spanless [OF e] del: entities_loop.simps)
qed


text \<open>
  C1. The catalog that the extractor writes for the directory \<open>pkg\<close> (the function
  \<open>f\<close> of \<open>a.py\<close> and the class \<open>C\<close> of \<open>c.py\<close>) holds no \<open>source_code\<close> entry, and
  the flattener, which reads that entry for the text of every document, raises
  \<open>KeyError\<close> on it instead of emitting documents.
\<close>

theorem flattener_rejects_extractor_catalog:
  "map fst (extract_entities_from_directory example_host (py ''pkg''))
     = [py ''pkg/a.py'', py ''pkg/c.py'']
   \<and> build_documents (JDict (extract_entities_from_directory example_host (py ''pkg'')))
     = Inl (KeyError (py ''source_code''))"
proof -
  have files: "python_files example_host (py ''pkg'')
               = [py ''pkg/a.py'', py ''pkg/bad.py'', py ''pkg/c.py'']"
    by (simp add: python_files_def example_host_def)
  have rel: "relative_to_parent example_host f p = Inr f" for f p
    by (simp add: example_host_def)
  have distinct: "py ''pkg/a.py'' \<noteq> py ''pkg/c.py''"
    by (simp add: py_def)
  obtain c where c: "extract_entities_from_file example_host (py ''pkg/c.py'') = Inr [c]"
    using example_files(3) by blast
  have keys: "map fst (extract_entities_from_directory example_host (py ''pkg''))
     = [py ''pkg/a.py'', py ''pkg/c.py'']"
    using distinct
    by (simp add: extract_entities_from_directory_def files try_file_def example_files(1,2)
          c rel)
  then have "extract_entities_from_directory example_host (py ''pkg'') \<noteq> []"
    by auto
  then show ?thesis
    using keys flattener_on_extractor_catalog by simp
qed

section \<open>Index and metadata\<close>

lemma texts_of_nth:
  assumes "texts_of docs = Inr texts"
  shows "length texts = length docs
         \<and> (\<forall>i < length docs. getitem (docs ! i) (py ''text'') = Inr (texts ! i))"
  using assms
proof (induction docs arbitrary: texts)
  case Nil
  then show ?case by simp
next
  case (Cons d ds)
  obtain t ts where t: "getitem d (py ''text'') = Inr t" and ts: "texts_of ds = Inr ts"
    and texts: "texts = t # ts"
    using Cons.prems by (auto simp: and_then_def split: sum.splits)
  have ih: "length ts = length ds
            \<and> (\<forall>i < length ds. getitem (ds ! i) (py ''text'') = Inr (ts ! i))"
    by (rule Cons.IH [OF ts])
  show ?case
    unfolding texts using t ih by (auto simp: nth_Cons split: nat.splits)
qed

lemma list_index_nonneg:
  assumes "list_index xs i = Inr x" and "0 \<le> i"
  shows "nat i < length xs \<and> x = xs ! nat i"
  using assms by (auto simp: list_index_def split: if_splits)

lemma results_loop_nth:
  assumes "results_loop metadata idxs acc = Inr results"
  shows "length results = length acc + length idxs
         \<and> (\<forall>j < length acc. results ! j = acc ! j)
         \<and> (\<forall>j < length idxs. 0 \<le> idxs ! j \<longrightarrow>
               nat (idxs ! j) < length metadata
               \<and> results ! (length acc + j) = metadata ! nat (idxs ! j))"
  using assms
proof (induction idxs arbitrary: acc)
  case Nil
  then show ?case by simp
next
  case (Cons idx rest)
  obtain d where d: "list_index metadata idx = Inr d"
    and loop: "results_loop metadata rest (acc @ [d]) = Inr results"
    using Cons.prems by (auto simp: and_then_def split: sum.splits)
  have ih: "length results = length (acc @ [d]) + length rest
         \<and> (\<forall>j < length (acc @ [d]). results ! j = (acc @ [d]) ! j)
         \<and> (\<forall>j < length rest. 0 \<le> rest ! j \<longrightarrow>
               nat (rest ! j) < length metadata
               \<and> results ! (length (acc @ [d]) + j) = metadata ! nat (rest ! j))"
    by (rule Cons.IH [OF loop])
  have len: "length results = length acc + length (idx # rest)"
    using ih by simp
  have old: "\<forall>j < length acc. results ! j = acc ! j"
  proof (intro allI impI)
    fix j assume j: "j < length acc"
    then have "results ! j = (acc @ [d]) ! j" using ih by simp
    then show "results ! j = acc ! j" using j by (simp add: nth_append)
  qed
  have here: "results ! length acc = d"
  proof -
    have "results ! length acc = (acc @ [d]) ! length acc" using ih by simp
    then show ?thesis by simp
  qed
  have new: "\<forall>j < length (idx # rest). 0 \<le> (idx # rest) ! j \<longrightarrow>
               nat ((idx # rest) ! j) < length metadata
               \<and> results ! (length acc + j) = metadata ! nat ((idx # rest) ! j)"
  proof (intro allI impI)
    fix j assume j: "j < length (idx # rest)" and nn: "0 \<le> (idx # rest) ! j"
    show "nat ((idx # rest) ! j) < length metadata
          \<and> results ! (length acc + j) = metadata ! nat ((idx # rest) ! j)"
    proof (cases j)
      case 0
      then show ?thesis using list_index_nonneg [OF d] nn here by simp
    next
      case (Suc k)
      then have "k < length rest" and "0 \<le> rest ! k" using j nn by simp_all
      then have "nat (rest ! k) < length metadata
               \<and> results ! (length (acc @ [d]) + k) = metadata ! nat (rest ! k)"
        using ih by blast
      then show ?thesis using Suc by simp
    qed
  qed
  show ?case using len old new by blast
qed

text \<open>
  When the index is built, the metadata file holds the documents that
  \<open>build_documents\<close> returned and the index holds as many vectors, at least one, the
  vector at position \<open>i\<close> being the embedding of the \<open>text\<close> of the document at
  metadata position \<open>i\<close>; and \<open>retrieve\<close> answers a value of the search that is not
  negative with the metadata entry at that position.
\<close>

lemma index_metadata_aligned:
  assumes "build_index embedding data = Inr store"
  shows "build_documents data = Inr (meta_file store)
   \<and> length (index_file store) = length (meta_file store)
   \<and> meta_file store \<noteq> []
   \<and> (\<forall>i < length (meta_file store).
         \<exists>t. getitem (meta_file store ! i) (py ''text'') = Inr t
              \<and> index_file store ! i = embedding t)
   \<and> (\<forall>results. retrieve search embedding store query top_k = Inr results \<longrightarrow>
         length results = length (search (index_file store) (embedding query) top_k)
         \<and> (\<forall>j < length results.
               0 \<le> search (index_file store) (embedding query) top_k ! j \<longrightarrow>
               nat (search (index_file store) (embedding query) top_k ! j)
                 < length (meta_file store)
               \<and> results ! j =
                   meta_file store ! nat (search (index_file store) (embedding query) top_k ! j)))"
proof -
  obtain docs texts where docs: "build_documents data = Inr docs"
    and texts: "texts_of docs = Inr texts"
    and nonempty: "texts \<noteq> []"
    and store: "store = \<lparr>index_file = map embedding texts, meta_file = docs\<rparr>"
    using assms by (auto simp: build_index_def and_then_def split: sum.splits if_splits)
  have t: "length texts = length docs
         \<and> (\<forall>i < length docs. getitem (docs ! i) (py ''text'') = Inr (texts ! i))"
    by (rule texts_of_nth [OF texts])
  have build: "build_documents data = Inr (meta_file store)
   \<and> length (index_file store) = length (meta_file store)
   \<and> meta_file store \<noteq> []
   \<and> (\<forall>i < length (meta_file store).
         \<exists>t. getitem (meta_file store ! i) (py ''text'') = Inr t
              \<and> index_file store ! i = embedding t)"
    using docs t nonempty by (auto simp: store)
  have query: "\<forall>results. retrieve search embedding store query top_k = Inr results \<longrightarrow>
         length results = length (search (index_file store) (embedding query) top_k)
         \<and> (\<forall>j < length results.
               0 \<le> search (index_file store) (embedding query) top_k ! j \<longrightarrow>
               nat (search (index_file store) (embedding query) top_k ! j)
                 < length (meta_file store)
               \<and> results ! j =
                   meta_file store ! nat (search (index_file store) (embedding query) top_k ! j))"
  proof (intro allI impI)
    fix results
    assume "retrieve search embedding store query top_k = Inr results"
    then have "results_loop (meta_file store)
                 (search (index_file store) (embedding query) top_k) [] = Inr results"
      by (simp add: retrieve_def)
    from results_loop_nth [OF this]
    show "length results = length (search (index_file store) (embedding query) top_k)
         \<and> (\<forall>j < length results.
               0 \<le> search (index_file store) (embedding query) top_k ! j \<longrightarrow>
               nat (search (index_file store) (embedding query) top_k ! j)
                 < length (meta_file store)
               \<and> results ! j =
                   meta_file store ! nat (search (index_file store) (embedding query) top_k ! j))"
      by simp
  qed
  show ?thesis using build query by blast
qed




end
